theory Spec2Isabelle
  imports Main "HOL-Library.Word"
begin

unbundle bit_operations_syntax

section \<open>Python values used by \<open>xknx/usb/knx_hid_frame.py\<close>\<close>

text \<open>
  A \<open>bytes\<close> object is a list of octets. Indexing it out of range raises \<open>IndexError\<close>,
  looking an enumeration up by a value that names no member raises \<open>ValueError\<close>,
  \<open>struct.pack\<close> raises \<open>struct.error\<close> on a number that does not fit the format, and
  calling a method on \<open>None\<close> raises \<open>AttributeError\<close>. Every function of the module that
  can raise returns \<open>py_error + 'a\<close>, with \<open>Inl\<close> for the exception.
\<close>

type_synonym byte = "8 word"
type_synonym bytes = "byte list"

datatype py_error = ValueError | IndexError | StructError | AttributeError

text \<open>
  The module reports through \<open>logger.error\<close> and \<open>logger.warning\<close>. A log record keeps the
  level and the two numbers of the message: the count of bytes received and the count
  expected. A decoder returns the records it wrote, in order, beside its result.
\<close>

datatype log_level = ERROR | WARNING

datatype log_record = Log log_level nat nat

definition getitem :: "bytes \<Rightarrow> nat \<Rightarrow> py_error + byte" where
  "getitem data i = (if i < length data then Inr (data ! i) else Inl IndexError)"

text \<open>\<open>struct.pack("<B", v)\<close>: one octet, or \<open>struct.error\<close> outside 0..255.\<close>

definition pack_B :: "int \<Rightarrow> py_error + byte" where
  "pack_B v = (if 0 \<le> v \<and> v \<le> 255 then Inr (word_of_int v) else Inl StructError)"

text \<open>The \<open>1s\<close> field of \<open>struct.pack\<close>: the first octet of the argument, a null octet when
  the argument is empty.\<close>

definition pack_1s :: "bytes \<Rightarrow> byte" where
  "pack_1s s = (case s of [] \<Rightarrow> 0 | c # _ \<Rightarrow> c)"

section \<open>The enumerations of \<open>knx_hid_datatypes\<close>\<close>

text \<open>
  Modelled from the spec: the enumeration \<open>SequenceNumber\<close> of \<open>knx_hid_datatypes\<close>, a
  module that is not among the sources. The spec gives it the values 1 to 5 with 0 reserved,
  and the table in the docstring of \<open>PacketInfo\<close> lists the same five packets; the member
  names are chosen here. \<open>SequenceNumber_call\<close> is the lookup by value, \<open>SequenceNumber(v)\<close>.
  Every member has a non-zero value, so every member is true in a condition.
\<close>

datatype SequenceNumber =
  FIRST_PACKET | SECOND_PACKET | THIRD_PACKET | FOURTH_PACKET | FIFTH_PACKET

fun SequenceNumber_value :: "SequenceNumber \<Rightarrow> nat" where
  "SequenceNumber_value FIRST_PACKET = 1"
| "SequenceNumber_value SECOND_PACKET = 2"
| "SequenceNumber_value THIRD_PACKET = 3"
| "SequenceNumber_value FOURTH_PACKET = 4"
| "SequenceNumber_value FIFTH_PACKET = 5"

definition SequenceNumber_call :: "nat \<Rightarrow> py_error + SequenceNumber" where
  "SequenceNumber_call v =
     (if v = 1 then Inr FIRST_PACKET
      else if v = 2 then Inr SECOND_PACKET
      else if v = 3 then Inr THIRD_PACKET
      else if v = 4 then Inr FOURTH_PACKET
      else if v = 5 then Inr FIFTH_PACKET
      else Inl ValueError)"

text \<open>
  Modelled from the spec: the enumeration \<open>PacketType\<close> of \<open>knx_hid_datatypes\<close>, not among
  the sources. The spec calls it a closed set of small integers and names no value, so the
  declaration is a parameter of the model: the values that name a member, and whether the
  class mixes in \<open>int\<close> (a member of such a class is true in a condition only when its value
  is not 0; a member of a plain enumeration is always true). A member is represented by its
  value. \<open>enum_call\<close> is the lookup by value, \<open>enum_bool\<close> the truth value of a member.
\<close>

record enum_decl =
  member_values :: "nat list"
  int_mixin :: bool

definition enum_call :: "enum_decl \<Rightarrow> nat \<Rightarrow> py_error + nat" where
  "enum_call E v = (if v \<in> set (member_values E) then Inr v else Inl ValueError)"

definition enum_bool :: "enum_decl \<Rightarrow> nat \<Rightarrow> bool" where
  "enum_bool E v = (if int_mixin E then v \<noteq> 0 else True)"

section \<open>\<open>PacketInfo\<close>\<close>

record PacketInfo =
  sequence_number :: "SequenceNumber option"
  packet_type :: "nat option"

definition PacketInfo_init :: PacketInfo where
  "PacketInfo_init = \<lparr>sequence_number = None, packet_type = None\<rparr>"

definition PacketInfo_from_data :: "SequenceNumber \<Rightarrow> nat \<Rightarrow> PacketInfo" where
  "PacketInfo_from_data sn pt = \<lparr>sequence_number = Some sn, packet_type = Some pt\<rparr>"

definition PacketInfo_from_knx ::
  "enum_decl \<Rightarrow> bytes \<Rightarrow> log_record list \<times> (py_error + PacketInfo)" where
  "PacketInfo_from_knx PT data =
     (if length data \<noteq> 1 then ([Log ERROR (length data) 1], Inr PacketInfo_init)
      else
        (case SequenceNumber_call (unat (drop_bit 4 (data ! 0))) of
           Inl e \<Rightarrow> ([], Inl e)
         | Inr sn \<Rightarrow>
             (case enum_call PT (unat (data ! 0 AND 0x0F)) of
                Inl e \<Rightarrow> ([], Inl e)
              | Inr pt \<Rightarrow> ([], Inr \<lparr>sequence_number = Some sn, packet_type = Some pt\<rparr>))))"

definition PacketInfo_to_knx :: "enum_decl \<Rightarrow> PacketInfo \<Rightarrow> py_error + bytes" where
  "PacketInfo_to_knx PT p =
     (case sequence_number p of
        None \<Rightarrow> Inr []
      | Some sn \<Rightarrow>
          (case packet_type p of
             None \<Rightarrow> Inr []
           | Some pt \<Rightarrow>
               if enum_bool PT pt
               then (case pack_B (int (push_bit 4 (SequenceNumber_value sn) OR pt)) of
                       Inl e \<Rightarrow> Inl e
                     | Inr b \<Rightarrow> Inr [b])
               else Inr []))"

section \<open>\<open>KNXHIDReportHeader\<close>\<close>

record KNXHIDReportHeader =
  report_id :: nat
  packet_info :: "PacketInfo option"
  data_length :: int
  header_valid :: bool

definition max_expected_data_length :: nat where
  "max_expected_data_length = 61"

definition KNXHIDReportHeader_init :: KNXHIDReportHeader where
  "KNXHIDReportHeader_init =
     \<lparr>report_id = 1, packet_info = None, data_length = 0, header_valid = False\<rparr>"

definition KNXHIDReportHeader_from_data :: "PacketInfo \<Rightarrow> int \<Rightarrow> KNXHIDReportHeader" where
  "KNXHIDReportHeader_from_data p n =
     (if n \<le> int max_expected_data_length
      then \<lparr>report_id = 1, packet_info = Some p, data_length = n, header_valid = True\<rparr>
      else \<lparr>report_id = 1, packet_info = Some p, data_length = 0, header_valid = False\<rparr>)"

definition KNXHIDReportHeader_from_knx ::
  "enum_decl \<Rightarrow> bytes \<Rightarrow> log_record list \<times> (py_error + KNXHIDReportHeader)" where
  "KNXHIDReportHeader_from_knx PT data =
     (if length data > max_expected_data_length
      then ([Log ERROR (length data) max_expected_data_length], Inr KNXHIDReportHeader_init)
      else
        (case getitem data 0 of
           Inl e \<Rightarrow> ([], Inl e)
         | Inr rid \<Rightarrow>
             (case PacketInfo_from_knx PT (take 1 (drop 1 data)) of
                (ls, Inl e) \<Rightarrow> (ls, Inl e)
              | (ls, Inr p) \<Rightarrow>
                  (case getitem data 2 of
                     Inl e \<Rightarrow> (ls, Inl e)
                   | Inr dl \<Rightarrow>
                       (ls, Inr \<lparr>report_id = unat rid, packet_info = Some p,
                                 data_length = uint dl, header_valid = (unat rid = 1)\<rparr>)))))"

definition KNXHIDReportHeader_to_knx ::
  "enum_decl \<Rightarrow> KNXHIDReportHeader \<Rightarrow> py_error + bytes" where
  "KNXHIDReportHeader_to_knx PT h =
     (if header_valid h
      then
        (case packet_info h of
           None \<Rightarrow> Inl AttributeError
         | Some p \<Rightarrow>
             (case PacketInfo_to_knx PT p of
                Inl e \<Rightarrow> Inl e
              | Inr s \<Rightarrow>
                  (case pack_B (int (report_id h)) of
                     Inl e \<Rightarrow> Inl e
                   | Inr r \<Rightarrow>
                       (case pack_B (data_length h) of
                          Inl e \<Rightarrow> Inl e
                        | Inr l \<Rightarrow> Inr [r, pack_1s s, l]))))
      else Inr [])"

section \<open>The transfer-protocol classes of \<open>knx_hid_transfer\<close>\<close>

text \<open>
  Modelled from the spec: the classes \<open>KNXUSBTransferProtocolHeader\<close> and
  \<open>KNXUSBTransferProtocolBody\<close> of \<open>knx_hid_transfer\<close>, a module that is not among the
  sources. The spec treats the transfer header as an external-shaped 8-byte structure and
  the payload as an opaque blob, and says of every decoder that it always returns a value
  carrying a valid flag. The two classes are therefore parameters of the model: \<open>'h\<close> and
  \<open>'b\<close> are their objects and the record holds the methods and properties that
  \<open>knx_hid_frame.py\<close> calls, each a total function. Their objects count as true in a
  condition, as objects of a class without \<open>__bool__\<close> and \<open>__len__\<close> do. The members of
  \<open>ProtocolID\<close> and \<open>EMIID\<close> are only handed through to the transfer header; they are
  represented by their values.
\<close>

record ('h, 'b) knx_hid_transfer =
  tph_from_data :: "int \<Rightarrow> nat \<Rightarrow> nat \<Rightarrow> 'h"
  tph_from_knx :: "bytes \<Rightarrow> 'h"
  tph_to_knx :: "'h \<Rightarrow> bytes"
  tph_is_valid :: "'h \<Rightarrow> bool"
  tph_header_length :: "'h \<Rightarrow> int"
  tpb_from_data :: "bytes \<Rightarrow> bool \<Rightarrow> 'b"
  tpb_from_knx :: "bytes \<Rightarrow> 'b"
  tpb_to_knx :: "'b \<Rightarrow> bool \<Rightarrow> bytes"
  tpb_is_valid :: "'b \<Rightarrow> bool"
  tpb_length :: "'b \<Rightarrow> int"

section \<open>\<open>KNXHIDReportBody\<close>\<close>

record ('h, 'b) KNXHIDReportBody =
  transfer_protocol_header :: "'h option"
  transfer_protocol_body :: "'b option"
  body_is_valid :: bool
  body_partial :: bool

definition max_size :: nat where
  "max_size = 61"

definition KNXHIDReportBody_init :: "('h, 'b) KNXHIDReportBody" where
  "KNXHIDReportBody_init =
     \<lparr>transfer_protocol_header = None, transfer_protocol_body = None,
      body_is_valid = False, body_partial = False\<rparr>"

text \<open>\<open>from_data\<close> leaves the field \<open>_partial\<close> at the \<open>False\<close> of the constructor.\<close>

definition KNXHIDReportBody_from_data ::
  "('h, 'b) knx_hid_transfer \<Rightarrow> nat \<Rightarrow> nat \<Rightarrow> bytes \<Rightarrow> bool \<Rightarrow> ('h, 'b) KNXHIDReportBody" where
  "KNXHIDReportBody_from_data T protocol_id emi_id emi_data partial =
     (let b = tpb_from_data T emi_data partial in
      if partial
      then \<lparr>transfer_protocol_header = None, transfer_protocol_body = Some b,
            body_is_valid = tpb_is_valid T b, body_partial = False\<rparr>
      else
        (let h = tph_from_data T (tpb_length T b) protocol_id emi_id in
         \<lparr>transfer_protocol_header = Some h, transfer_protocol_body = Some b,
          body_is_valid = (tph_is_valid T h \<and> tpb_is_valid T b), body_partial = False\<rparr>))"

definition KNXHIDReportBody_from_knx ::
  "('h, 'b) knx_hid_transfer \<Rightarrow> bytes \<Rightarrow> bool \<Rightarrow> log_record list \<times> ('h, 'b) KNXHIDReportBody" where
  "KNXHIDReportBody_from_knx T data partial =
     (if length data \<noteq> max_size
      then ([Log ERROR (length data) max_size], KNXHIDReportBody_init)
      else if partial
      then
        (let b = tpb_from_knx T data in
         ([], \<lparr>transfer_protocol_header = None, transfer_protocol_body = Some b,
               body_is_valid = tpb_is_valid T b, body_partial = True\<rparr>))
      else
        (let h = tph_from_knx T (take 8 data); b = tpb_from_knx T (drop 8 data) in
         ([], \<lparr>transfer_protocol_header = Some h, transfer_protocol_body = Some b,
               body_is_valid = (tph_is_valid T h \<and> tpb_is_valid T b),
               body_partial = False\<rparr>)))"

definition KNXHIDReportBody_to_knx ::
  "('h, 'b) knx_hid_transfer \<Rightarrow> ('h, 'b) KNXHIDReportBody \<Rightarrow> bytes" where
  "KNXHIDReportBody_to_knx T rb =
     (case transfer_protocol_header rb of
        None \<Rightarrow> []
      | Some h \<Rightarrow>
          (case transfer_protocol_body rb of
             None \<Rightarrow> []
           | Some b \<Rightarrow> tph_to_knx T h @ tpb_to_knx T b (body_partial rb)))"

definition KNXHIDReportBody_length ::
  "('h, 'b) knx_hid_transfer \<Rightarrow> ('h, 'b) KNXHIDReportBody \<Rightarrow> int" where
  "KNXHIDReportBody_length T rb =
     (case (body_partial rb, transfer_protocol_body rb) of
        (True, Some b) \<Rightarrow> tpb_length T b
      | _ \<Rightarrow>
          (case (transfer_protocol_header rb, transfer_protocol_body rb) of
             (Some h, Some b) \<Rightarrow> tph_header_length T h + tpb_length T b
           | _ \<Rightarrow> 0))"

section \<open>\<open>KNXHIDFrame\<close>\<close>

record ('h, 'b) KNXHIDFrame =
  report_body :: "('h, 'b) KNXHIDReportBody option"
  report_header :: "KNXHIDReportHeader option"
  frame_is_valid :: bool
  frame_partial :: bool

definition expected_byte_count :: nat where
  "expected_byte_count = 64"

definition KNXHIDFrame_from_data ::
  "('h, 'b) knx_hid_transfer \<Rightarrow> PacketInfo \<Rightarrow> nat \<Rightarrow> nat \<Rightarrow> bytes \<Rightarrow> bool \<Rightarrow> ('h, 'b) KNXHIDFrame" where
  "KNXHIDFrame_from_data T p protocol_id emi_id emi_data partial =
     (let rb = KNXHIDReportBody_from_data T protocol_id emi_id emi_data partial;
          rh = KNXHIDReportHeader_from_data p (KNXHIDReportBody_length T rb) in
      \<lparr>report_body = Some rb, report_header = Some rh,
       frame_is_valid =
         (if partial then body_is_valid rb else header_valid rh \<and> body_is_valid rb),
       frame_partial = partial\<rparr>)"

definition KNXHIDFrame_from_knx ::
  "enum_decl \<Rightarrow> ('h, 'b) knx_hid_transfer \<Rightarrow> bytes \<Rightarrow> bool \<Rightarrow>
     log_record list \<times> (py_error + ('h, 'b) KNXHIDFrame)" where
  "KNXHIDFrame_from_knx PT T data partial =
     (let w = (if length data < expected_byte_count
               then [Log WARNING (length data) expected_byte_count] else [])
      in
        (case KNXHIDReportHeader_from_knx PT (take 3 data) of
           (lh, Inl e) \<Rightarrow> (w @ lh, Inl e)
         | (lh, Inr rh) \<Rightarrow>
             (case KNXHIDReportBody_from_knx T (drop 3 data) partial of
                (lb, rb) \<Rightarrow>
                  (w @ lh @ lb,
                   Inr \<lparr>report_body = Some rb, report_header = Some rh,
                        frame_is_valid = (header_valid rh \<and> body_is_valid rb),
                        frame_partial = partial\<rparr>))))"

definition KNXHIDFrame_to_knx ::
  "enum_decl \<Rightarrow> ('h, 'b) knx_hid_transfer \<Rightarrow> ('h, 'b) KNXHIDFrame \<Rightarrow> py_error + bytes" where
  "KNXHIDFrame_to_knx PT T f =
     (case report_header f of
        None \<Rightarrow> Inl AttributeError
      | Some rh \<Rightarrow>
          (case KNXHIDReportHeader_to_knx PT rh of
             Inl e \<Rightarrow> Inl e
           | Inr hs \<Rightarrow>
               (case report_body f of
                  None \<Rightarrow> Inl AttributeError
                | Some rb \<Rightarrow> Inr (hs @ KNXHIDReportBody_to_knx T rb))))"

section \<open>Auxiliary definitions for the statements\<close>

text \<open>The octet that \<open>PacketInfo.to_knx\<close> packs: the sequence number shifted into the high
  nibble, or-ed with the packet type.\<close>

definition descriptor_byte :: "SequenceNumber \<Rightarrow> nat \<Rightarrow> byte" where
  "descriptor_byte sn pt = word_of_int (int (push_bit 4 (SequenceNumber_value sn) OR pt))"


text \<open>
  Modelled from the spec: one instance of each absent declaration, used only where a
  statement is evaluated at a concrete input. \<open>PacketType_sample\<close> is a plain enumeration
  with the values 3 to 6. In \<open>transfer_sample\<close> a transfer header is kept as its 8 octets
  (the length, the protocol id and the EMI id among them) and reports a header length of 8;
  a payload object is the payload octets, its length their count, and its encoding pads
  them with null octets to the 53 octets of a start packet or the 61 of a continuation.
\<close>

definition PacketType_sample :: enum_decl where
  "PacketType_sample = \<lparr>member_values = [3, 4, 5, 6], int_mixin = False\<rparr>"

definition transfer_sample :: "(bytes, bytes) knx_hid_transfer" where
  "transfer_sample =
     \<lparr>tph_from_data =
        (\<lambda>n p e. [0, 8, word_of_int (n div 256), word_of_int n, of_nat p, of_nat e, 0, 0]),
      tph_from_knx = (\<lambda>d. d),
      tph_to_knx = (\<lambda>h. h),
      tph_is_valid = (\<lambda>h. length h = 8),
      tph_header_length = (\<lambda>h. 8),
      tpb_from_data = (\<lambda>d partial. d),
      tpb_from_knx = (\<lambda>d. d),
      tpb_to_knx = (\<lambda>b partial. b @ replicate ((if partial then 61 else 53) - length b) 0),
      tpb_is_valid = (\<lambda>b. length b \<le> 61),
      tpb_length = (\<lambda>b. int (length b))\<rparr>"

section \<open>Body-length ceiling of a constructed header\<close>

text \<open>
  C8. \<open>KNXHIDReportHeader.from_data\<close> yields a valid header exactly when the given body
  length is at most 61: a length of 61 gives a valid header, a length of 62 an invalid one.
\<close>

theorem from_data_valid_iff_length_le_61:
  "header_valid (KNXHIDReportHeader_from_data p n) = (n \<le> 61)
   \<and> header_valid (KNXHIDReportHeader_from_data p 61)
   \<and> \<not> header_valid (KNXHIDReportHeader_from_data p 62)"
  by (simp add: KNXHIDReportHeader_from_data_def max_expected_data_length_def)

section \<open>The descriptor octet\<close>

lemma nibble_cases:
  "pt < 16 \<Longrightarrow> pt \<in> {0, 1, 2, 3, 4, 5, 6, 7, 8, 9, 10, 11, 12, 13, 14, 15 :: nat}"
  by (simp, arith)


lemma descriptor_fits:
  "pt < 16 \<Longrightarrow>
     pack_B (int (push_bit 4 (SequenceNumber_value sn) OR pt)) = Inr (descriptor_byte sn pt)"
  by (drule nibble_cases, cases sn) (auto simp: pack_B_def descriptor_byte_def)

lemma descriptor_high:
  "pt < 16 \<Longrightarrow> unat (drop_bit 4 (descriptor_byte sn pt)) = SequenceNumber_value sn"
  by (drule nibble_cases, cases sn) (auto simp: descriptor_byte_def)

lemma descriptor_low: "pt < 16 \<Longrightarrow> unat (descriptor_byte sn pt AND 0x0F) = pt"
  by (drule nibble_cases, cases sn) (auto simp: descriptor_byte_def)

lemma PacketInfo_to_knx_from_data:
  "pt < 16 \<Longrightarrow> enum_bool PT pt \<Longrightarrow>
     PacketInfo_to_knx PT (PacketInfo_from_data sn pt) = Inr [descriptor_byte sn pt]"
  by (simp add: PacketInfo_to_knx_def PacketInfo_from_data_def descriptor_fits)


text \<open>
  C9. A \<open>PacketInfo\<close> with both fields set, as \<open>from_data\<close> builds it, encodes to exactly one
  octet whose high nibble is the value of the sequence number and whose low nibble is the
  value of the packet type; with either field unset the encoding is the empty byte string.
  The packet type is a member whose value fits a nibble and which is true in a condition
  (every member of a plain enumeration is, and every non-zero member of an integer one).
\<close>

theorem PacketInfo_to_knx_nibbles:
  assumes "pt < 16" and "enum_bool PT pt"
  shows "(\<exists>b. PacketInfo_to_knx PT (PacketInfo_from_data sn pt) = Inr [b]
            \<and> unat (drop_bit 4 b) = SequenceNumber_value sn \<and> unat (b AND 0x0F) = pt)
         \<and> PacketInfo_to_knx PT \<lparr>sequence_number = None, packet_type = q\<rparr> = Inr []
         \<and> PacketInfo_to_knx PT \<lparr>sequence_number = s, packet_type = None\<rparr> = Inr []"
proof -
  have "PacketInfo_to_knx PT (PacketInfo_from_data sn pt) = Inr [descriptor_byte sn pt]"
    using assms by (rule PacketInfo_to_knx_from_data)
  moreover have "unat (drop_bit 4 (descriptor_byte sn pt)) = SequenceNumber_value sn"
    using assms(1) by (rule descriptor_high)
  moreover have "unat (descriptor_byte sn pt AND 0x0F) = pt"
    using assms(1) by (rule descriptor_low)
  moreover have "PacketInfo_to_knx PT \<lparr>sequence_number = None, packet_type = q\<rparr> = Inr []"
    by (simp add: PacketInfo_to_knx_def)
  moreover have "PacketInfo_to_knx PT \<lparr>sequence_number = s, packet_type = None\<rparr> = Inr []"
    by (simp add: PacketInfo_to_knx_def split: option.splits)
  ultimately show ?thesis by blast
qed

theorem PacketInfo_to_knx_nibbles_witness:
  "(3::nat) < 16 \<and> enum_bool PacketType_sample 3
   \<and> (\<exists>b. PacketInfo_to_knx PacketType_sample (PacketInfo_from_data FIRST_PACKET 3) = Inr [b]
         \<and> unat (drop_bit 4 b) = SequenceNumber_value FIRST_PACKET \<and> unat (b AND 0x0F) = 3)
   \<and> PacketInfo_to_knx PacketType_sample \<lparr>sequence_number = None, packet_type = Some 3\<rparr>
       = Inr []
   \<and> PacketInfo_to_knx PacketType_sample
        \<lparr>sequence_number = Some FIRST_PACKET, packet_type = None\<rparr> = Inr []"
  using PacketInfo_to_knx_nibbles
    [of 3 PacketType_sample FIRST_PACKET "Some 3" "Some FIRST_PACKET"]
  by (simp add: enum_bool_def PacketType_sample_def)

section \<open>Decoding a report body\<close>

text \<open>
  C4. For every input whose length is not exactly 61, with either value of the partial flag,
  \<open>KNXHIDReportBody.from_knx\<close> logs one error and still returns a report body, and that
  body is not valid.
\<close>

theorem wrong_length_body_is_invalid:
  "length data \<noteq> 61 \<Longrightarrow>
     fst (KNXHIDReportBody_from_knx T data partial) = [Log ERROR (length data) 61]
     \<and> \<not> body_is_valid (snd (KNXHIDReportBody_from_knx T data partial))"
  by (simp add: KNXHIDReportBody_from_knx_def KNXHIDReportBody_init_def max_size_def)

theorem wrong_length_body_is_invalid_witness:
  "length (replicate 60 (0::byte)) \<noteq> 61
   \<and> fst (KNXHIDReportBody_from_knx transfer_sample (replicate 60 0) True) = [Log ERROR 60 61]
   \<and> \<not> body_is_valid (snd (KNXHIDReportBody_from_knx transfer_sample (replicate 60 0) True))"
  using wrong_length_body_is_invalid [of "replicate 60 (0::byte)" transfer_sample True]
  by simp

text \<open>
  C10. For every input whose length is not exactly 61, the report body that
  \<open>KNXHIDReportBody.from_knx\<close> returns exposes no partially parsed data: the transfer
  header and the transfer body are both absent, the length is 0 and the encoding is the
  empty byte string.
\<close>

theorem wrong_length_body_is_empty:
  "length data \<noteq> 61 \<Longrightarrow>
     transfer_protocol_header (snd (KNXHIDReportBody_from_knx T data partial)) = None
     \<and> transfer_protocol_body (snd (KNXHIDReportBody_from_knx T data partial)) = None
     \<and> KNXHIDReportBody_length T (snd (KNXHIDReportBody_from_knx T data partial)) = 0
     \<and> KNXHIDReportBody_to_knx T (snd (KNXHIDReportBody_from_knx T data partial)) = []"
  by (simp add: KNXHIDReportBody_from_knx_def KNXHIDReportBody_init_def max_size_def
      KNXHIDReportBody_length_def KNXHIDReportBody_to_knx_def)

theorem wrong_length_body_is_empty_witness:
  "length (replicate 62 (7::byte)) \<noteq> 61
   \<and> transfer_protocol_header
       (snd (KNXHIDReportBody_from_knx transfer_sample (replicate 62 7) False)) = None
   \<and> transfer_protocol_body
       (snd (KNXHIDReportBody_from_knx transfer_sample (replicate 62 7) False)) = None
   \<and> KNXHIDReportBody_length transfer_sample
       (snd (KNXHIDReportBody_from_knx transfer_sample (replicate 62 7) False)) = 0
   \<and> KNXHIDReportBody_to_knx transfer_sample
       (snd (KNXHIDReportBody_from_knx transfer_sample (replicate 62 7) False)) = []"
  using wrong_length_body_is_empty [of "replicate 62 (7::byte)" transfer_sample False]
  by simp

text \<open>
  C5. Decoding 61 octets with the partial flag set never parses a transfer header: the
  transfer header of the result is absent, all 61 octets go to the payload decoder, and
  the body is valid exactly when the payload decoded as valid. The result is the same
  whatever the header decoder \<open>g\<close> and the header validity \<open>v\<close> are, so also when the first
  8 octets form a well-formed header.
\<close>

theorem continuation_body_has_no_header:
  "length data = 61 \<Longrightarrow>
     KNXHIDReportBody_from_knx T data True =
       ([], \<lparr>transfer_protocol_header = None,
             transfer_protocol_body = Some (tpb_from_knx T data),
             body_is_valid = tpb_is_valid T (tpb_from_knx T data),
             body_partial = True\<rparr>)
     \<and> KNXHIDReportBody_from_knx (T\<lparr>tph_from_knx := g, tph_is_valid := v\<rparr>) data True =
         KNXHIDReportBody_from_knx T data True"
  by (simp add: KNXHIDReportBody_from_knx_def max_size_def Let_def)

theorem continuation_body_has_no_header_witness:
  "length ([0, 8, 0, 10, 1, 3, 0, 0] @ replicate 53 (0xAA::byte)) = 61
   \<and> KNXHIDReportBody_from_knx transfer_sample
        ([0, 8, 0, 10, 1, 3, 0, 0] @ replicate 53 0xAA) True =
       ([], \<lparr>transfer_protocol_header = None,
             transfer_protocol_body =
               Some (tpb_from_knx transfer_sample ([0, 8, 0, 10, 1, 3, 0, 0] @ replicate 53 0xAA)),
             body_is_valid =
               tpb_is_valid transfer_sample
                 (tpb_from_knx transfer_sample ([0, 8, 0, 10, 1, 3, 0, 0] @ replicate 53 0xAA)),
             body_partial = True\<rparr>)
   \<and> KNXHIDReportBody_from_knx
        (transfer_sample\<lparr>tph_from_knx := (\<lambda>d. []), tph_is_valid := (\<lambda>h. False)\<rparr>)
        ([0, 8, 0, 10, 1, 3, 0, 0] @ replicate 53 0xAA) True =
       KNXHIDReportBody_from_knx transfer_sample
        ([0, 8, 0, 10, 1, 3, 0, 0] @ replicate 53 0xAA) True"
  using continuation_body_has_no_header
    [where data = "[0, 8, 0, 10, 1, 3, 0, 0] @ replicate 53 (0xAA::byte)"
       and T = transfer_sample and g = "\<lambda>d. []" and v = "\<lambda>h. False"]
  by simp

section \<open>Decoding a report header\<close>

lemma unat_byte_eq_1: "(unat (w :: byte) = Suc 0) = (w = 1)"
  by (simp add: word_unat_eq_iff)

text \<open>Whenever the header decoder returns a valid header, it read the report id 1 from
  an input of at most 61 octets.\<close>

lemma report_id_gate:
  "KNXHIDReportHeader_from_knx PT data = (ls, Inr h) \<Longrightarrow> header_valid h \<Longrightarrow>
     length data \<le> 61 \<and> getitem data 0 = Inr 1 \<and> report_id h = 1"
  by (auto simp: KNXHIDReportHeader_from_knx_def max_expected_data_length_def
      KNXHIDReportHeader_init_def unat_byte_eq_1 split: if_splits sum.splits prod.splits)




text \<open>
  C3. The spec has every 3-byte header whose byte 0 is not 1 decode to a header that is not
  valid, whatever bytes 1 and 2 are. The code does not return a header for every such
  input: at the octets 02 00 00 the descriptor octet has the reserved sequence number 0,
  the lookup \<open>SequenceNumber(0)\<close> raises \<open>ValueError\<close>, and the exception leaves
  \<open>from_knx\<close>. (When a header is returned, \<open>report_id_gate\<close> above gives the gate.)
\<close>

theorem header_02_00_00_raises:
  "KNXHIDReportHeader_from_knx PT [0x02, 0x00, 0x00] = ([], Inl ValueError)"
  by (simp add: KNXHIDReportHeader_from_knx_def max_expected_data_length_def getitem_def
      PacketInfo_from_knx_def SequenceNumber_call_def)

text \<open>
  C2. The spec has every decoder of the layer return a value for every byte input, an
  unmapped nibble of the descriptor octet giving an invalid result. The code raises
  instead: the header decoder guards only against more than 61 octets and then reads
  \<open>data[0]\<close> and \<open>data[2]\<close>, so the empty input raises \<open>IndexError\<close>, also through the frame
  decoder; and the descriptor decoder looks the nibbles up in their enumerations, so the
  octet 00 raises \<open>ValueError\<close>.
\<close>

theorem decoders_raise:
  "KNXHIDReportHeader_from_knx PT [] = ([], Inl IndexError)
   \<and> KNXHIDFrame_from_knx PT T [] partial = ([Log WARNING 0 64], Inl IndexError)
   \<and> PacketInfo_from_knx PT [0x00] = ([], Inl ValueError)"
  by (simp add: KNXHIDFrame_from_knx_def expected_byte_count_def
      KNXHIDReportHeader_from_knx_def max_expected_data_length_def getitem_def
      PacketInfo_from_knx_def SequenceNumber_call_def)

section \<open>Decoding a frame\<close>

text \<open>A frame of fewer than 64 octets whose header decodes: one warning, the records of
  the header, one error for the body, and a frame that is not valid.\<close>

lemma short_frame_decodes:
  assumes "length data < 64"
    and "KNXHIDReportHeader_from_knx PT (take 3 data) = (lh, Inr rh)"
  shows "KNXHIDFrame_from_knx PT T data partial =
     (Log WARNING (length data) 64 # lh @ [Log ERROR (length data - 3) 61],
      Inr \<lparr>report_body = Some KNXHIDReportBody_init, report_header = Some rh,
           frame_is_valid = False, frame_partial = partial\<rparr>)"
proof -
  from assms(1) have "length (drop 3 data) \<noteq> 61"
    by simp
  then have "KNXHIDReportBody_from_knx T (drop 3 data) partial =
      ([Log ERROR (length data - 3) 61], KNXHIDReportBody_init)"
    by (simp add: KNXHIDReportBody_from_knx_def max_size_def)
  with assms show ?thesis
    by (simp add: KNXHIDFrame_from_knx_def expected_byte_count_def KNXHIDReportBody_init_def)
qed

text \<open>
  C6. The spec has every input of at least 3 and fewer than 64 octets decode to a frame,
  with a warning and never a crash. The code logs the warning and then raises at the
  63 octets 01 00 00 ... 00: the header decoder looks up the sequence number 0 of the
  descriptor octet and \<open>ValueError\<close> leaves \<open>KNXHIDFrame.from_knx\<close>, with either value of
  the partial flag. (When the header decodes, \<open>short_frame_decodes\<close> above gives the frame.)
\<close>

theorem short_frame_raises:
  "KNXHIDFrame_from_knx PT T (0x01 # replicate 62 0x00) partial
     = ([Log WARNING 63 64], Inl ValueError)"
  by (simp add: KNXHIDFrame_from_knx_def expected_byte_count_def
      KNXHIDReportHeader_from_knx_def max_expected_data_length_def getitem_def
      PacketInfo_from_knx_def SequenceNumber_call_def)

section \<open>Encoding a frame\<close>

text \<open>
  C7. The spec has every valid frame encode to exactly 64 octets. A frame built by
  \<open>from_data\<close> with the partial flag set is valid as soon as the transfer layer accepts the
  payload, and its report body has no transfer header; \<open>KNXHIDReportBody.to_knx\<close> then
  returns the empty byte string, and \<open>length\<close> returns 0 because \<open>from_data\<close> leaves
  \<open>_partial\<close> unset. The encoding of the frame is that of its header alone: 3 octets when
  it is returned.
\<close>

theorem partial_frame_encodes_header_only:
  "frame_is_valid (KNXHIDFrame_from_data T p protocol_id emi_id emi_data True)
     = tpb_is_valid T (tpb_from_data T emi_data True)
   \<and> KNXHIDFrame_to_knx PT T (KNXHIDFrame_from_data T p protocol_id emi_id emi_data True)
     = KNXHIDReportHeader_to_knx PT (KNXHIDReportHeader_from_data p 0)
   \<and> (case KNXHIDFrame_to_knx PT T (KNXHIDFrame_from_data T p protocol_id emi_id emi_data True)
       of Inl e \<Rightarrow> True | Inr enc \<Rightarrow> length enc = 3)"
  by (auto simp add: KNXHIDFrame_from_data_def KNXHIDReportBody_from_data_def Let_def
      KNXHIDReportBody_length_def KNXHIDFrame_to_knx_def KNXHIDReportBody_to_knx_def
      KNXHIDReportHeader_to_knx_def KNXHIDReportHeader_from_data_def
      max_expected_data_length_def split: sum.splits)

text \<open>The same at a concrete continuation frame: valid, and encoded to 3 octets.\<close>

lemma partial_frame_sample:
  "frame_is_valid
     (KNXHIDFrame_from_data transfer_sample (PacketInfo_from_data FIRST_PACKET 4) 1 3
        (replicate 10 0xAA) True)
   \<and> KNXHIDFrame_to_knx PacketType_sample transfer_sample
        (KNXHIDFrame_from_data transfer_sample (PacketInfo_from_data FIRST_PACKET 4) 1 3
           (replicate 10 0xAA) True)
      = Inr [0x01, 0x14, 0x00]"
  by (simp add: KNXHIDFrame_from_data_def KNXHIDReportBody_from_data_def Let_def
      KNXHIDReportBody_length_def KNXHIDFrame_to_knx_def KNXHIDReportBody_to_knx_def
      KNXHIDReportHeader_to_knx_def KNXHIDReportHeader_from_data_def
      max_expected_data_length_def transfer_sample_def PacketType_sample_def
      PacketInfo_to_knx_def PacketInfo_from_data_def enum_bool_def pack_B_def pack_1s_def)

section \<open>Round trip of a constructed frame\<close>




end
